theory Spec2Isabelle
  imports Complex_Main "HOL-Library.Multiset"
begin

section \<open>JavaScript values\<close>

text \<open>
  A JavaScript number is an IEEE double. The handlers of \<open>App.jsx\<close> never compute with
  the numbers they receive: they carry them, test them with \<open>=== 1\<close> and test their
  truthiness. So a number is a finite value, one of the infinities or \<open>NaN\<close>, and the
  rounding of doubles is not modelled.
\<close>

datatype number = Fin real | PosInfinity | NegInfinity | NaN

text \<open>
  The value that \<open>response.json()\<close> or a stored document field holds. \<open>JObj\<close> lists the
  properties of the parsed object, each key once.
\<close>

datatype json =
    JNull
  | JBool bool
  | JNum number
  | JStr string
  | JArr "json list"
  | JObj "(string \<times> json) list"

text \<open>
  A plain object is the list of its own properties in insertion order, which is the order in
  which \<open>Object.keys\<close> lists keys that are not array indices. The keys used by the program
  are disease names and field names; none is an array index and none is a member of
  \<open>Object.prototype\<close>, so \<open>obj[k]\<close> is the own property or \<open>undefined\<close> (\<open>None\<close>).
\<close>

type_synonym 'v obj = "(string \<times> 'v) list"

definition get_prop :: "'v obj \<Rightarrow> string \<Rightarrow> 'v option" where
  "get_prop ob k = map_of ob k"

text \<open>\<open>obj[k] = v\<close>: an existing property keeps its place, a new one goes last.\<close>

fun set_prop :: "'v obj \<Rightarrow> string \<Rightarrow> 'v \<Rightarrow> 'v obj" where
  "set_prop [] k v = [(k, v)]"
| "set_prop ((k', v') # ps) k v =
     (if k' = k then (k, v) # ps else (k', v') # set_prop ps k v)"

definition Object_keys :: "'v obj \<Rightarrow> string list" where
  "Object_keys ob = map fst ob"

section \<open>PredictionPieChart: the aggregation\<close>

text \<open>
  \<^verbatim>\<open>
  const diseaseCounts = predictionHistory.reduce((acc, disease) => {
    acc[disease] = (acc[disease] || 0) + 1;
    return acc;
  }, {});
  \<close>
  \<open>acc[disease] || 0\<close> is \<open>0\<close> when the property is missing or holds the falsy \<open>0\<close>.
\<close>

definition or_zero :: "nat option \<Rightarrow> nat" where
  "or_zero v = (case v of None \<Rightarrow> 0 | Some c \<Rightarrow> (if c = 0 then 0 else c))"

definition count_step :: "nat obj \<Rightarrow> string \<Rightarrow> nat obj" where
  "count_step acc disease = set_prop acc disease (or_zero (get_prop acc disease) + 1)"

definition diseaseCounts :: "string list \<Rightarrow> nat obj" where
  "diseaseCounts predictionHistory = foldl count_step [] predictionHistory"

text \<open>
  \<open>disease.charAt(0).toUpperCase() + disease.slice(1)\<close>. The upper-casing is the one of
  ASCII letters; other bytes are left as they are.
\<close>

definition toUpperCase_char :: "char \<Rightarrow> char" where
  "toUpperCase_char c =
     (let n = (of_char c :: nat) in if 97 \<le> n \<and> n \<le> 122 then char_of (n - 32) else c)"

definition capitalize :: "string \<Rightarrow> string" where
  "capitalize disease = (case disease of [] \<Rightarrow> [] | c # cs \<Rightarrow> toUpperCase_char c # cs)"

record pie_entry =
  name :: string
  "value" :: "nat option"

definition pieChartData :: "nat obj \<Rightarrow> pie_entry list" where
  "pieChartData dc =
     map (\<lambda>disease. \<lparr>name = capitalize disease, value = get_prop dc disease\<rparr>) (Object_keys dc)"

text \<open>
  \<open>COLORS\<close> holds \<open>primary.main\<close>, \<open>success.main\<close>, \<open>error.main\<close> and
  \<open>secondary.main\<close> of the theme declared at the top of the file.
\<close>

definition COLORS :: "string list" where
  "COLORS = [''#2196f3'', ''#4caf50'', ''#f44336'', ''#ff9800'']"

text \<open>
  \<open>pieChartData.map((entry, index) => <Cell fill={COLORS[index % COLORS.length]} />)\<close>:
  the fill colours of the cells, in the order of the entries.
\<close>

definition cell_fills :: "pie_entry list \<Rightarrow> string list" where
  "cell_fills pd = map (\<lambda>index. COLORS ! (index mod length COLORS)) [0..<length pd]"

text \<open>
  The colour that a render of the chart gives to a disease: the fill of the cell whose
  entry was built from that key of \<open>diseaseCounts\<close>; \<open>None\<close> when the disease has no cell.
\<close>

definition fill_of :: "string list \<Rightarrow> string \<Rightarrow> string option" where
  "fill_of predictionHistory disease =
     (let dc = diseaseCounts predictionHistory
      in map_of (zip (Object_keys dc) (cell_fills (pieChartData dc))) disease)"

text \<open>The list of diseases that \<open>App\<close> offers for selection.\<close>

definition availableDiseases :: "string list" where
  "availableDiseases = [''heart'', ''diabetes'', ''kidney'', ''hypertension'']"

section \<open>The history collection and its listener\<close>

text \<open>
  A form value is the empty string or a number; \<open>formData\<close> is the object that maps
  each field name to its value.
\<close>

datatype field_value = EmptyString | Number number

type_synonym form_data = "field_value obj"

text \<open>
  The data handed to \<open>addDoc\<close>. A field read from the response that is missing there is
  \<open>undefined\<close> (\<open>None\<close>). A stored document has in addition the identity and the
  timestamp that the store assigns.
\<close>

record doc_data =
  disease_name :: string
  prediction_result :: "json option"
  probability :: "json option"
  formData :: form_data

record hist_doc = doc_data +
  doc_id :: nat
  timestamp :: nat

text \<open>
  \<^verbatim>\<open>
  const history = [];
  querySnapshot.forEach((doc) => {
    const data = doc.data();
    if (data.prediction_result === 1) { history.push(data.disease_name); }
  });
  setPredictionHistory(history);
  \<close>
\<close>

definition snapshot_step :: "string list \<Rightarrow> hist_doc \<Rightarrow> string list" where
  "snapshot_step history data =
     (if prediction_result data = Some (JNum (Fin 1)) then history @ [disease_name data]
      else history)"

definition snapshot_history :: "hist_doc list \<Rightarrow> string list" where
  "snapshot_history querySnapshot = foldl snapshot_step [] querySnapshot"

text \<open>The aggregate that the chart shows for a snapshot of the collection.\<close>

definition aggregate :: "hist_doc list \<Rightarrow> nat obj" where
  "aggregate querySnapshot = diseaseCounts (snapshot_history querySnapshot)"

section \<open>PredictionForm.handleInputChange\<close>

text \<open>
  \<open>e.target.value\<close> is the text of a text field, or the value of the chosen menu item of a
  select: the empty string of the placeholder item, or the number of an option.
  \<open>parseFloat\<close> is the built-in of the runtime and is a parameter of the model.
  \<^verbatim>\<open>
  const newValue = value === '' ? '' : parseFloat(value);
  setFormData({ ...formData, [name]: newValue });
  \<close>
\<close>

datatype target_value = TextValue string | OptionValue number

definition handleInputChange ::
  "(target_value \<Rightarrow> number) \<Rightarrow> string \<Rightarrow> target_value \<Rightarrow> form_data \<Rightarrow> form_data" where
  "handleInputChange parseFloat nm v fd =
     (let newValue = (if v = TextValue [] then EmptyString else Number (parseFloat v))
      in set_prop fd nm newValue)"

section \<open>Errors, promises and responses\<close>

datatype error_kind = TypeError | SyntaxError | Error | FirebaseError

text \<open>
  The \<open>message\<close> of an error is a string. \<open>new Error(v)\<close> with a value \<open>v\<close> that is not a
  string has the message \<open>String(v)\<close>, which is kept as it is, not rendered.
\<close>

datatype msg = Text string | String_of json

datatype js_error = JsError error_kind msg

fun message :: "js_error \<Rightarrow> msg" where
  "message (JsError k m) = m"

datatype 'a settled = Fulfilled 'a | Rejected js_error

text \<open>
  What \<open>fetch\<close> settles with: a rejection when the request does not reach a response, or a
  response with its \<open>ok\<close> flag and its body. \<open>response.json()\<close> rejects with a
  \<open>SyntaxError\<close> when the body is not JSON.
\<close>

datatype body = NotJson string | Json json

datatype fetch_result = NetworkFailure string | Response bool body

text \<open>
  \<open>v.k\<close> for the field names the program reads (\<open>detail\<close>, \<open>prediction\<close>,
  \<open>probability_has_disease\<close>): a \<open>TypeError\<close> on \<open>null\<close>, the property of an object,
  \<open>undefined\<close> on every other value. The wording of the \<open>TypeError\<close> is the engine's.
\<close>

definition member :: "json \<Rightarrow> string \<Rightarrow> js_error + json option" where
  "member v k =
     (case v of
        JNull \<Rightarrow> Inl (JsError TypeError (Text (''Cannot read properties of null (reading '' @ k @ '')'')))
      | JObj ps \<Rightarrow> Inr (get_prop ps k)
      | _ \<Rightarrow> Inr None)"

fun truthy :: "json \<Rightarrow> bool" where
  "truthy JNull = False"
| "truthy (JBool b) = b"
| "truthy (JNum n) = (n \<noteq> Fin 0 \<and> n \<noteq> NaN)"
| "truthy (JStr s) = (s \<noteq> [])"
| "truthy (JArr vs) = True"
| "truthy (JObj ps) = True"

text \<open>\<open>new Error(errorData.detail || generic)\<close>\<close>

definition error_of_detail :: "json option \<Rightarrow> string \<Rightarrow> js_error" where
  "error_of_detail detail generic =
     JsError Error
       (case detail of
          None \<Rightarrow> Text generic
        | Some v \<Rightarrow>
            if truthy v then (case v of JStr s \<Rightarrow> Text s | _ \<Rightarrow> String_of v)
            else Text generic)"

text \<open>
  \<^verbatim>\<open>
  fetch(url, {...}).then(response => {
    if (!response.ok) {
      return response.json().then(errorData => {
        throw new Error(errorData.detail || generic);
      });
    }
    return response.json();
  })
  \<close>
\<close>

definition settle_call :: "string \<Rightarrow> fetch_result \<Rightarrow> json settled" where
  "settle_call generic r =
     (case r of
        NetworkFailure m \<Rightarrow> Rejected (JsError TypeError (Text m))
      | Response ok b \<Rightarrow>
          if \<not> ok then
            (case b of
               NotJson m \<Rightarrow> Rejected (JsError SyntaxError (Text m))
             | Json errorData \<Rightarrow>
                 (case member errorData ''detail'' of
                    Inl e \<Rightarrow> Rejected e
                  | Inr detail \<Rightarrow> Rejected (error_of_detail detail generic)))
          else
            (case b of
               NotJson m \<Rightarrow> Rejected (JsError SyntaxError (Text m))
             | Json v \<Rightarrow> Fulfilled v))"

definition prediction_generic :: string where
  "prediction_generic = ''Something went wrong with the prediction.''"

definition shap_generic :: string where
  "shap_generic = ''Something went wrong with the SHAP explanation.''"

section \<open>The state of App and the effects of its handlers\<close>

text \<open>
  What \<open>prediction\<close> and \<open>shapData\<close> hold: a value (\<open>null\<close> at first, then the body of
  a response) or the object \<open>{ error: message }\<close>.
\<close>

datatype display = Shown json | ErrorObject msg

record dialog =
  "open" :: bool
  title :: string
  content :: string

datatype firestore = Firestore

text \<open>Every call a handler makes, in the order it makes them.\<close>

datatype effect =
    SetIsLoading bool
  | SetPrediction display
  | SetShapData display
  | Fetch string form_data
  | AddDoc doc_data
  | ConsoleError string js_error
  | ConsoleLog string
  | SetIsClearingHistory bool
  | SetClearHistoryMessage dialog
  | GetDocs
  | BatchCommit "nat list"

text \<open>
  The state that the handlers read and write: the React state of \<open>App\<close>, the documents of
  the collection \<open>prediction_history\<close> of the current user, and the trace of the calls
  made so far. \<open>handlePrediction\<close> exists only while a disease is selected, so
  \<open>selectedDisease\<close> is a string.
\<close>

record world =
  selectedDisease :: string
  prediction :: display
  shapData :: display
  isLoading :: bool
  isClearingHistory :: bool
  clearHistoryMessage :: dialog
  db :: "firestore option"
  userId :: "string option"
  predictionHistory :: "string list"
  collection_docs :: "hist_doc list"
  trace :: "effect list"

definition emit :: "effect \<Rightarrow> world \<Rightarrow> world" where
  "emit e w = w\<lparr>trace := trace w @ [e]\<rparr>"

definition setIsLoading :: "bool \<Rightarrow> world \<Rightarrow> world" where
  "setIsLoading b w = emit (SetIsLoading b) (w\<lparr>isLoading := b\<rparr>)"

definition setPrediction :: "display \<Rightarrow> world \<Rightarrow> world" where
  "setPrediction d w = emit (SetPrediction d) (w\<lparr>prediction := d\<rparr>)"

definition setShapData :: "display \<Rightarrow> world \<Rightarrow> world" where
  "setShapData d w = emit (SetShapData d) (w\<lparr>shapData := d\<rparr>)"

definition setIsClearingHistory :: "bool \<Rightarrow> world \<Rightarrow> world" where
  "setIsClearingHistory b w = emit (SetIsClearingHistory b) (w\<lparr>isClearingHistory := b\<rparr>)"

definition setClearHistoryMessage :: "dialog \<Rightarrow> world \<Rightarrow> world" where
  "setClearHistoryMessage d w = emit (SetClearHistoryMessage d) (w\<lparr>clearHistoryMessage := d\<rparr>)"

text \<open>\<open>db && userId\<close>: the handle is not \<open>null\<close> and the identity is a non-empty string.\<close>

definition store_ready :: "world \<Rightarrow> bool" where
  "store_ready w = (db w \<noteq> None \<and> userId w \<noteq> None \<and> userId w \<noteq> Some [])"

text \<open>
  While the store handle and the user identity are set, the listener of \<open>onSnapshot\<close>
  runs with the current documents of the collection whenever they change.
\<close>

definition deliver_snapshot :: "world \<Rightarrow> world" where
  "deliver_snapshot w = w\<lparr>predictionHistory := snapshot_history (collection_docs w)\<rparr>"

section \<open>handlePrediction\<close>

text \<open>
  What the outside world answers during one submission: the two responses of the backend,
  and what the store does with the write. The store either accepts the document, giving
  it an identity and a timestamp, or rejects the write.
\<close>

datatype add_outcome = Written nat nat | WriteRejected js_error

record env =
  predict_response :: fetch_result
  explain_response :: fetch_result
  addDoc_outcome :: add_outcome

definition backendUrl :: string where
  "backendUrl = ''https://predictionsystem-fwa7.onrender.com''"

definition predictionPromise :: "env \<Rightarrow> json settled" where
  "predictionPromise en = settle_call prediction_generic (predict_response en)"

definition shapPromise :: "env \<Rightarrow> json settled" where
  "shapPromise en = settle_call shap_generic (explain_response en)"

text \<open>
  \<open>await addDoc(historyCollectionRef, {...})\<close>: a rejected write throws at the
  \<open>await\<close>; the state reached so far stays as it is.
\<close>

definition addDoc :: "env \<Rightarrow> doc_data \<Rightarrow> world \<Rightarrow> (js_error \<times> world) + world" where
  "addDoc en d w =
     (let w' = emit (AddDoc d) w
      in case addDoc_outcome en of
           WriteRejected e \<Rightarrow> Inl (e, w')
         | Written i t \<Rightarrow>
             Inr (w'\<lparr>collection_docs := collection_docs w' @
                    [\<lparr>disease_name = disease_name d, prediction_result = prediction_result d,
                      probability = probability d, formData = formData d,
                      doc_id = i, timestamp = t\<rparr>]\<rparr>))"

text \<open>
  The branch on \<open>predictionResult.status\<close>. The object literal reads
  \<open>result.prediction\<close> and \<open>result.probability_has_disease\<close> before \<open>addDoc\<close> is called.
\<close>

definition on_prediction_result ::
  "env \<Rightarrow> form_data \<Rightarrow> json settled \<Rightarrow> world \<Rightarrow> (js_error \<times> world) + world" where
  "on_prediction_result en fd predictionResult w =
     (case predictionResult of
        Fulfilled result \<Rightarrow>
          (let w1 = setPrediction (Shown result) w
           in if store_ready w1 then
                (case member result ''prediction'' of
                   Inl e \<Rightarrow> Inl (e, w1)
                 | Inr p \<Rightarrow>
                     (case member result ''probability_has_disease'' of
                        Inl e \<Rightarrow> Inl (e, w1)
                      | Inr q \<Rightarrow>
                          addDoc en
                            \<lparr>disease_name = selectedDisease w1, prediction_result = p,
                             probability = q, formData = fd\<rparr> w1))
              else Inr w1)
      | Rejected reason \<Rightarrow>
          Inr (emit (ConsoleError ''Prediction Error:'' reason)
                 (setPrediction (ErrorObject (message reason)) w)))"

definition on_shap_result :: "json settled \<Rightarrow> world \<Rightarrow> world" where
  "on_shap_result shapResult w =
     (case shapResult of
        Fulfilled v \<Rightarrow> setShapData (Shown v) w
      | Rejected reason \<Rightarrow>
          emit (ConsoleError ''SHAP Explanation Error:'' reason)
            (setShapData (ErrorObject (message reason)) w))"

text \<open>
  The body of \<open>try\<close>: both requests are sent, \<open>Promise.allSettled\<close> gives the two settled
  results, then the two branches run in turn.
\<close>

definition try_block :: "env \<Rightarrow> form_data \<Rightarrow> world \<Rightarrow> (js_error \<times> world) + world" where
  "try_block en fd w =
     (let w1 = emit (Fetch (backendUrl @ ''/predict/'' @ selectedDisease w) fd) w;
          w2 = emit (Fetch (backendUrl @ ''/explain/'' @ selectedDisease w) fd) w1;
          predictionResult = predictionPromise en;
          shapResult = shapPromise en
      in case on_prediction_result en fd predictionResult w2 of
           Inl thrown \<Rightarrow> Inl thrown
         | Inr w3 \<Rightarrow> Inr (on_shap_result shapResult w3))"

definition connect_failed :: string where
  "connect_failed = ''Failed to connect to the backend server.''"

definition catch_block :: "js_error \<Rightarrow> world \<Rightarrow> world" where
  "catch_block error w =
     setShapData (Shown JNull)
       (setPrediction (ErrorObject (Text connect_failed))
          (emit (ConsoleError ''API call failed:'' error) w))"

text \<open>
  The handler is an \<open>async\<close> function. \<open>handlePrediction_state\<close> is the state that its
  body leaves behind: whatever is thrown inside \<open>try\<close> goes to \<open>catch\<close>, and \<open>finally\<close>
  runs last. Nothing outside \<open>try\<close> throws, so the promise it returns is fulfilled.
\<close>

definition handlePrediction_state :: "env \<Rightarrow> form_data \<Rightarrow> world \<Rightarrow> world" where
  "handlePrediction_state en fd w =
     (let w0 = setShapData (Shown JNull) (setPrediction (Shown JNull) (setIsLoading True w));
          w1 = (case try_block en fd w0 of
                  Inr w' \<Rightarrow> w'
                | Inl (error, w') \<Rightarrow> catch_block error w')
      in setIsLoading False w1)"

definition handlePrediction :: "env \<Rightarrow> form_data \<Rightarrow> world \<Rightarrow> world settled" where
  "handlePrediction en fd w = Fulfilled (handlePrediction_state en fd w)"

section \<open>handleClearHistory\<close>

text \<open>
  What the outside world does during one clearing: \<open>getDocs\<close> may be rejected, other
  writers may append documents between the read and the commit, and the commit of the
  batch may be rejected. A committed batch deletes the documents whose references it
  holds; a rejected one deletes nothing.
\<close>

record clear_env =
  getDocs_rejection :: "js_error option"
  concurrent_appends :: "hist_doc list"
  commit_rejection :: "js_error option"

definition cleared_message :: dialog where
  "cleared_message =
     \<lparr>open = True, title = ''Success'', content = ''Prediction history cleared successfully.''\<rparr>"

definition failed_message :: dialog where
  "failed_message =
     \<lparr>open = True, title = ''Error'', content = ''Failed to clear history. Please try again.''\<rparr>"

definition clear_try :: "clear_env \<Rightarrow> world \<Rightarrow> (js_error \<times> world) + world" where
  "clear_try en w =
     (let w1 = emit GetDocs w
      in case getDocs_rejection en of
           Some e \<Rightarrow> Inl (e, w1)
         | None \<Rightarrow>
             (let querySnapshot = collection_docs w1;
                  batch = map doc_id querySnapshot;
                  w2 = w1\<lparr>collection_docs := collection_docs w1 @ concurrent_appends en\<rparr>;
                  w3 = emit (BatchCommit batch) w2
              in case commit_rejection en of
                   Some e \<Rightarrow> Inl (e, w3)
                 | None \<Rightarrow>
                     Inr (emit (ConsoleLog ''Prediction history cleared successfully.'')
                            (setClearHistoryMessage cleared_message
                               (w3\<lparr>collection_docs :=
                                     filter (\<lambda>d. doc_id d \<notin> set batch) (collection_docs w3)\<rparr>)))))"

definition clear_catch :: "js_error \<Rightarrow> world \<Rightarrow> world" where
  "clear_catch error w =
     emit (ConsoleError ''Error clearing prediction history:'' error)
       (setClearHistoryMessage failed_message w)"

definition handleClearHistory_state :: "clear_env \<Rightarrow> world \<Rightarrow> world" where
  "handleClearHistory_state en w =
     (if \<not> store_ready w then w
      else
        (let w1 = setIsClearingHistory True w;
             w2 = (case clear_try en w1 of
                     Inr w' \<Rightarrow> w'
                   | Inl (error, w') \<Rightarrow> clear_catch error w')
         in setIsClearingHistory False w2))"

definition handleClearHistory :: "clear_env \<Rightarrow> world \<Rightarrow> world settled" where
  "handleClearHistory en w = Fulfilled (handleClearHistory_state en w)"

section \<open>Observations on traces and promises\<close>

text \<open>The data of the \<open>addDoc\<close> calls of a trace, in order.\<close>

fun issued_appends :: "effect list \<Rightarrow> doc_data list" where
  "issued_appends [] = []"
| "issued_appends (AddDoc d # es) = d # issued_appends es"
| "issued_appends (e # es) = issued_appends es"

fun is_rejected :: "'a settled \<Rightarrow> bool" where
  "is_rejected (Rejected e) = True"
| "is_rejected (Fulfilled v) = False"

section \<open>Example inputs\<close>

definition example_form :: form_data where
  "example_form = [(''Glucose'', Number (Fin 148)), (''BMI'', Number (Fin 33.6))]"

text \<open>A stored document for a disease with the given \<open>prediction_result\<close>.\<close>

definition example_doc :: "nat \<Rightarrow> string \<Rightarrow> real \<Rightarrow> hist_doc" where
  "example_doc i d p =
     \<lparr>disease_name = d, prediction_result = Some (JNum (Fin p)),
      probability = Some (JNum (Fin 0.5)), formData = example_form,
      doc_id = i, timestamp = i\<rparr>"

text \<open>A signed-in session with the diabetes form selected and an empty history.\<close>

definition example_world :: world where
  "example_world =
     \<lparr>selectedDisease = ''diabetes'', prediction = Shown JNull, shapData = Shown JNull,
      isLoading = False, isClearingHistory = False,
      clearHistoryMessage = \<lparr>open = False, title = [], content = []\<rparr>,
      db = Some Firestore, userId = Some ''user-1'', predictionHistory = [],
      collection_docs = [], trace = []\<rparr>"

text \<open>
  The same session when no Firebase configuration is available: the first effect of
  \<open>App\<close> then leaves \<open>db\<close> and \<open>userId\<close> at \<open>null\<close> and lets the application load.
\<close>

definition offline_world :: world where
  "offline_world = example_world\<lparr>db := None, userId := None\<rparr>"

definition positive_body :: json where
  "positive_body =
     JObj [(''prediction'', JNum (Fin 1)), (''probability_has_disease'', JNum (Fin 0.82))]"

definition shap_body :: json where
  "shap_body = JObj [(''positive_features'', JArr []), (''negative_features'', JArr [])]"

text \<open>Both calls answer with success and the store accepts the write.\<close>

definition ok_env :: env where
  "ok_env = \<lparr>predict_response = Response True (Json positive_body),
             explain_response = Response True (Json shap_body),
             addDoc_outcome = Written 7 100\<rparr>"

definition rejected_write :: add_outcome where
  "rejected_write =
     WriteRejected (JsError FirebaseError (Text ''Missing or insufficient permissions.''))"

definition explain_failure :: fetch_result where
  "explain_failure = Response False (Json (JObj [(''detail'', JStr ''Model not loaded'')]))"

definition clear_ok :: clear_env where
  "clear_ok = \<lparr>getDocs_rejection = None, concurrent_appends = [], commit_rejection = None\<rparr>"

section \<open>Properties of the aggregation\<close>

lemma map_of_set_prop: "map_of (set_prop ps k v) = (map_of ps)(k \<mapsto> v)"
  by (induction ps k v rule: set_prop.induct) (auto simp: fun_eq_iff)

lemma keys_set_prop:
  "map fst (set_prop ps k v) = (if k \<in> set (map fst ps) then map fst ps else map fst ps @ [k])"
  by (induction ps k v rule: set_prop.induct) auto

lemma sum_set_prop:
  "sum_list (map snd (set_prop ps k (or_zero (map_of ps k) + 1))) = sum_list (map snd ps) + 1"
  by (induction ps) (auto simp: or_zero_def)

lemma sum_count_step: "sum_list (map snd (count_step acc d)) = sum_list (map snd acc) + 1"
  unfolding count_step_def get_prop_def by (rule sum_set_prop)

lemma sum_foldl_count_step:
  "sum_list (map snd (foldl count_step acc xs)) = sum_list (map snd acc) + length xs"
  by (induction xs arbitrary: acc) (simp_all add: sum_count_step)

lemma sum_diseaseCounts: "sum_list (map snd (diseaseCounts xs)) = length xs"
  by (simp add: diseaseCounts_def sum_foldl_count_step)

lemma foldl_snapshot_step:
  "foldl snapshot_step h ds =
     h @ map disease_name (filter (\<lambda>d. prediction_result d = Some (JNum (Fin 1))) ds)"
  by (induction ds arbitrary: h) (simp_all add: snapshot_step_def)

lemma snapshot_history_filter:
  "snapshot_history ds = map disease_name (filter (\<lambda>d. prediction_result d = Some (JNum (Fin 1))) ds)"
  by (simp add: snapshot_history_def foldl_snapshot_step)

lemma lookup_count_step:
  "map_of (count_step acc d) k =
     (if k = d then Some (or_zero (map_of acc k) + 1) else map_of acc k)"
  by (simp add: count_step_def get_prop_def map_of_set_prop)

lemma lookup_foldl_count_step:
  "map_of (foldl count_step acc xs) k =
     (if count_list xs k = 0 then map_of acc k
      else Some (or_zero (map_of acc k) + count_list xs k))"
  by (induction xs arbitrary: acc) (auto simp: lookup_count_step or_zero_def)

lemma lookup_diseaseCounts:
  "get_prop (diseaseCounts xs) k = (if k \<in> set xs then Some (count_list xs k) else None)"
  by (simp add: get_prop_def diseaseCounts_def lookup_foldl_count_step or_zero_def count_list_0_iff)

lemma diseaseCounts_snoc: "diseaseCounts (xs @ [x]) = count_step (diseaseCounts xs) x"
  by (simp add: diseaseCounts_def)

lemma keys_count_step:
  "Object_keys (count_step acc d) =
     (if d \<in> set (Object_keys acc) then Object_keys acc else Object_keys acc @ [d])"
  by (simp add: Object_keys_def count_step_def keys_set_prop)

lemma keys_diseaseCounts:
  "set (Object_keys (diseaseCounts xs)) = set xs \<and> distinct (Object_keys (diseaseCounts xs))"
proof (induction xs rule: rev_induct)
  case Nil
  show ?case by (simp add: diseaseCounts_def Object_keys_def)
next
  case (snoc x xs)
  then show ?case by (auto simp: diseaseCounts_snoc keys_count_step)
qed

lemma takeWhile_snoc_absent: "d \<notin> set ys \<Longrightarrow> takeWhile (\<lambda>x. x \<noteq> d) (ys @ [d]) = ys"
  by (induction ys) auto

lemma position_in_keys:
  "d \<in> set xs \<Longrightarrow>
   length (takeWhile (\<lambda>x. x \<noteq> d) (Object_keys (diseaseCounts xs))) =
   card (set (takeWhile (\<lambda>x. x \<noteq> d) xs))"
proof (induction xs rule: rev_induct)
  case Nil
  then show ?case by simp
next
  case (snoc x xs)
  let ?K = "Object_keys (diseaseCounts xs)"
  have K: "set ?K = set xs" "distinct ?K" using keys_diseaseCounts by auto
  show ?case
  proof (cases "d \<in> set xs")
    case True
    then have "d \<in> set ?K" using K by simp
    with True snoc.IH show ?thesis
      by (simp add: diseaseCounts_snoc keys_count_step takeWhile_append1 K)
  next
    case False
    with snoc.prems have xd: "x = d" by simp
    have notK: "d \<notin> set ?K" using False K by simp
    have keys: "Object_keys (diseaseCounts (xs @ [x])) = ?K @ [d]"
      using notK xd by (simp add: diseaseCounts_snoc keys_count_step)
    have twK: "takeWhile (\<lambda>x. x \<noteq> d) (?K @ [d]) = ?K"
      using notK by (rule takeWhile_snoc_absent)
    have twx: "takeWhile (\<lambda>x. x \<noteq> d) (xs @ [x]) = xs"
      unfolding xd using False by (rule takeWhile_snoc_absent)
    have "length ?K = card (set xs)" using K distinct_card by metis
    then show ?thesis by (simp only: keys twK twx)
  qed
qed

lemma map_of_zip_upt:
  "d \<in> set ks \<Longrightarrow>
   map_of (zip ks (map f [n..<n + length ks])) d = Some (f (n + length (takeWhile (\<lambda>x. x \<noteq> d) ks)))"
proof (induction ks arbitrary: n)
  case Nil
  then show ?case by simp
next
  case (Cons k ks)
  have "n < n + length (k # ks)" by simp
  from upt_conv_Cons[OF this]
  have upt: "[n..<n + length (k # ks)] = n # [Suc n..<Suc n + length ks]"
    by simp
  show ?case
  proof (cases "k = d")
    case True
    then show ?thesis unfolding upt by simp
  next
    case False
    with Cons.prems have "d \<in> set ks" by simp
    from Cons.IH[OF this, of "Suc n"] False show ?thesis unfolding upt by simp
  qed
qed

lemma distinct_aggregate_keys: "distinct (map fst (diseaseCounts xs))"
  using keys_diseaseCounts[of xs] by (simp add: Object_keys_def)

lemma set_diseaseCounts: "set (diseaseCounts xs) = {(k, count_list xs k) | k. k \<in> set xs}"
proof -
  have "(k, v) \<in> set (diseaseCounts xs) \<longleftrightarrow> k \<in> set xs \<and> v = count_list xs k" for k v
    using map_of_eq_Some_iff[OF distinct_aggregate_keys, of xs k v] lookup_diseaseCounts[of xs k]
    by (auto simp: get_prop_def split: if_splits)
  then show ?thesis by auto
qed

lemma mset_snapshot_history:
  "mset s = mset s' \<Longrightarrow> mset (snapshot_history s) = mset (snapshot_history s')"
  by (simp add: snapshot_history_filter)

text \<open>
  C3 (as amended). The listener keeps only the documents whose \<open>prediction_result\<close> is
  \<open>1\<close>, so for every snapshot the per-category counts sum to the number of those
  documents; each of them is counted under exactly one category.
\<close>

theorem aggregate_counts_sum:
  "sum_list (map snd (aggregate snapshot)) =
     length (filter (\<lambda>d. prediction_result d = Some (JNum (Fin 1))) snapshot)"
  by (simp add: aggregate_def sum_diseaseCounts snapshot_history_filter)

text \<open>
  C3 as stated fails: a snapshot whose only document has \<open>prediction_result\<close> \<open>0\<close> has
  one entry, and the counts sum to \<open>0\<close>.
\<close>

theorem aggregate_counts_sum_counterexample:
  "sum_list (map snd (aggregate [example_doc 1 ''heart'' 0])) \<noteq> length [example_doc 1 ''heart'' 0]"
  by (simp add: aggregate_def snapshot_history_def snapshot_step_def example_doc_def
      diseaseCounts_def)

text \<open>
  C7. Aggregation does not depend on the order of the entries: two snapshots with the
  same entries, in any order, give every category the same count, and the same
  category-count pairs.
\<close>

theorem aggregate_order_independent:
  assumes "mset s = mset s'"
  shows "get_prop (aggregate s) = get_prop (aggregate s') \<and> mset (aggregate s) = mset (aggregate s')"
proof
  have m: "mset (snapshot_history s) = mset (snapshot_history s')"
    using assms by (rule mset_snapshot_history)
  have st: "set (snapshot_history s) = set (snapshot_history s')"
    using m by (metis set_mset_mset)
  have c: "count_list (snapshot_history s) k = count_list (snapshot_history s') k" for k
    using m by (metis count_mset)
  show "get_prop (aggregate s) = get_prop (aggregate s')"
    by (rule ext) (simp add: aggregate_def lookup_diseaseCounts c st)
  have "set (aggregate s) = set (aggregate s')"
    by (simp add: aggregate_def set_diseaseCounts st c)
  moreover have "distinct (aggregate s)" "distinct (aggregate s')"
    using distinct_aggregate_keys by (auto simp: aggregate_def dest: distinct_map[THEN iffD1])
  ultimately show "mset (aggregate s) = mset (aggregate s')"
    by (simp add: set_eq_iff_mset_eq_distinct)
qed

theorem aggregate_order_independent_witness:
  "mset [example_doc 1 ''heart'' 1, example_doc 2 ''diabetes'' 1, example_doc 3 ''heart'' 1] =
     mset [example_doc 3 ''heart'' 1, example_doc 1 ''heart'' 1, example_doc 2 ''diabetes'' 1]
   \<and> get_prop (aggregate [example_doc 1 ''heart'' 1, example_doc 2 ''diabetes'' 1, example_doc 3 ''heart'' 1]) =
     get_prop (aggregate [example_doc 3 ''heart'' 1, example_doc 1 ''heart'' 1, example_doc 2 ''diabetes'' 1])
   \<and> mset (aggregate [example_doc 1 ''heart'' 1, example_doc 2 ''diabetes'' 1, example_doc 3 ''heart'' 1]) =
     mset (aggregate [example_doc 3 ''heart'' 1, example_doc 1 ''heart'' 1, example_doc 2 ''diabetes'' 1])"
proof -
  have h: "mset [example_doc 1 ''heart'' 1, example_doc 2 ''diabetes'' 1, example_doc 3 ''heart'' 1] =
     mset [example_doc 3 ''heart'' 1, example_doc 1 ''heart'' 1, example_doc 2 ''diabetes'' 1]"
    by (simp add: add_mset_commute)
  show ?thesis using h aggregate_order_independent [OF h] by simp
qed

text \<open>
  C6 (as amended). The colour of a category in a render is \<open>COLORS[k % 4]\<close>, where \<open>k\<close>
  is the number of distinct categories that occur in \<open>predictionHistory\<close> before the
  first occurrence of the category. It is a function of the order of the history, not of
  a fixed list of categories; two renders give a category the same colour when that
  number is the same.
\<close>

theorem fill_of_position:
  "d \<in> set h \<Longrightarrow>
   fill_of h d = Some (COLORS ! (card (set (takeWhile (\<lambda>x. x \<noteq> d) h)) mod length COLORS))"
proof -
  assume d: "d \<in> set h"
  let ?K = "Object_keys (diseaseCounts h)"
  have len: "length (pieChartData (diseaseCounts h)) = length ?K"
    by (simp add: pieChartData_def)
  have dK: "d \<in> set ?K" using d keys_diseaseCounts by simp
  have "fill_of h d = map_of (zip ?K (map (\<lambda>i. COLORS ! (i mod length COLORS)) [0..<0 + length ?K])) d"
    by (simp add: fill_of_def cell_fills_def len Let_def)
  also have "\<dots> = Some (COLORS ! ((0 + length (takeWhile (\<lambda>x. x \<noteq> d) ?K)) mod length COLORS))"
    using map_of_zip_upt[OF dK, of "\<lambda>i. COLORS ! (i mod length COLORS)" 0] by simp
  finally show ?thesis using position_in_keys[OF d] by simp
qed

theorem fill_of_position_witness:
  "''diabetes'' \<in> set [''heart'', ''diabetes'', ''heart''] \<and>
   fill_of [''heart'', ''diabetes'', ''heart''] ''diabetes'' = Some ''#4caf50''"
  using fill_of_position [of "''diabetes''" "[''heart'', ''diabetes'', ''heart'']"]
  by (simp add: COLORS_def)

text \<open>
  C6 as stated fails: \<open>diabetes\<close>, the second entry of \<open>availableDiseases\<close>, is drawn in
  the first colour when it is the only category of the history, and in the second colour
  when \<open>heart\<close> occurs before it.
\<close>

theorem fill_of_counterexample:
  "availableDiseases ! 1 = ''diabetes'' \<and>
   fill_of [''diabetes''] ''diabetes'' = Some ''#2196f3'' \<and>
   fill_of [''heart'', ''diabetes''] ''diabetes'' = Some ''#4caf50''"
  by (simp add: fill_of_def diseaseCounts_def count_step_def or_zero_def get_prop_def
      Object_keys_def cell_fills_def pieChartData_def COLORS_def availableDiseases_def)

section \<open>Properties of handleInputChange\<close>

lemma get_set_prop: "get_prop (set_prop fd k v) k' = (if k' = k then Some v else get_prop fd k')"
  by (simp add: get_prop_def map_of_set_prop)

text \<open>
  C9. A change of a field stores \<open>parseFloat(value)\<close> for every value but the empty
  string, and stores the empty string itself for the empty string, whatever
  \<open>parseFloat\<close> would make of it. The empty string is a different value from the number
  \<open>0\<close> and from \<open>NaN\<close>. The other fields keep their values.
\<close>

theorem handleInputChange_coerces:
  "(v \<noteq> TextValue [] \<longrightarrow>
      get_prop (handleInputChange parseFloat nm v fd) nm = Some (Number (parseFloat v)))
   \<and> get_prop (handleInputChange parseFloat nm (TextValue []) fd) nm = Some EmptyString
   \<and> EmptyString \<noteq> Number (Fin 0) \<and> EmptyString \<noteq> Number NaN
   \<and> (k \<noteq> nm \<longrightarrow> get_prop (handleInputChange parseFloat nm v fd) k = get_prop fd k)"
  by (simp add: handleInputChange_def get_set_prop Let_def)

theorem handleInputChange_coerces_witness:
  "TextValue ''54'' \<noteq> TextValue [] \<and>
   get_prop (handleInputChange (\<lambda>v. Fin 54) ''Age'' (TextValue ''54'')
       [(''Age'', EmptyString), (''Sex'', EmptyString)]) ''Age'' = Some (Number (Fin 54)) \<and>
   ''Sex'' \<noteq> ''Age'' \<and>
   get_prop (handleInputChange (\<lambda>v. Fin 54) ''Age'' (TextValue ''54'')
       [(''Age'', EmptyString), (''Sex'', EmptyString)]) ''Sex'' = Some EmptyString"
  using handleInputChange_coerces [of "TextValue ''54''" "\<lambda>v. Fin 54" "''Age''"
      "[(''Age'', EmptyString), (''Sex'', EmptyString)]" "''Sex''"]
  by (simp add: get_prop_def)

section \<open>Properties of the backend calls\<close>

text \<open>
  C8 (as amended). The outcome of a call is an error exactly when the request does not
  reach a response, when the status is not a success, or when the body of a successful
  response is not JSON. For a non-success status whose body is a JSON object, the message
  is the \<open>detail\<close> field when that is a non-empty string, and the generic message of
  the call when the field is missing or falsy.
\<close>

theorem settle_call_errors:
  "is_rejected (settle_call generic r) =
     (case r of
        NetworkFailure m \<Rightarrow> True
      | Response ok b \<Rightarrow> (if ok then (case b of NotJson m \<Rightarrow> True | Json v \<Rightarrow> False) else True))
   \<and> (get_prop ps ''detail'' = Some (JStr s) \<and> s \<noteq> [] \<longrightarrow>
        settle_call generic (Response False (Json (JObj ps))) = Rejected (JsError Error (Text s)))
   \<and> (get_prop ps' ''detail'' = None \<or> (\<exists>v. get_prop ps' ''detail'' = Some v \<and> \<not> truthy v) \<longrightarrow>
        settle_call generic (Response False (Json (JObj ps'))) =
          Rejected (JsError Error (Text generic)))"
  by (auto simp: settle_call_def member_def error_of_detail_def
      split: fetch_result.splits body.splits sum.splits json.splits option.splits)

theorem settle_call_errors_witness:
  "get_prop [(''detail'', JStr ''missing field'')] ''detail'' = Some (JStr ''missing field'') \<and>
   ''missing field'' \<noteq> [] \<and>
   settle_call prediction_generic (Response False (Json (JObj [(''detail'', JStr ''missing field'')]))) =
     Rejected (JsError Error (Text ''missing field'')) \<and>
   get_prop [(''status'', JNum (Fin 500))] ''detail'' = None \<and>
   settle_call prediction_generic (Response False (Json (JObj [(''status'', JNum (Fin 500))]))) =
     Rejected (JsError Error (Text prediction_generic))"
  using settle_call_errors [of prediction_generic "NetworkFailure []"
      "[(''detail'', JStr ''missing field'')]" "''missing field''" "[(''status'', JNum (Fin 500))]"]
  by (simp add: get_prop_def)

text \<open>
  C8 as stated fails twice. A response with a success status whose body is not JSON gives
  an error, though the transport did not fail and the status is a success. A non-success
  response whose \<open>detail\<close> field is present and is the empty string gives the generic
  message, not the field.
\<close>

theorem settle_call_counterexample:
  "settle_call prediction_generic (Response True (NotJson ''Unexpected end of JSON input'')) =
     Rejected (JsError SyntaxError (Text ''Unexpected end of JSON input'')) \<and>
   settle_call prediction_generic (Response False (Json (JObj [(''detail'', JStr [])]))) =
     Rejected (JsError Error (Text ''Something went wrong with the prediction.''))"
  by (simp add: settle_call_def member_def get_prop_def error_of_detail_def prediction_generic_def)

section \<open>Properties of handlePrediction\<close>

lemmas setters =
  emit_def setIsLoading_def setPrediction_def setShapData_def setIsClearingHistory_def
  setClearHistoryMessage_def

lemma store_ready_setters [simp]:
  "store_ready (emit e w) = store_ready w"
  "store_ready (setIsLoading b w) = store_ready w"
  "store_ready (setPrediction d w) = store_ready w"
  "store_ready (setShapData d w) = store_ready w"
  "store_ready (setIsClearingHistory b w) = store_ready w"
  by (simp_all add: store_ready_def setters)

lemma docs_setters [simp]:
  "collection_docs (emit e w) = collection_docs w"
  "collection_docs (setIsLoading b w) = collection_docs w"
  "collection_docs (setPrediction d w) = collection_docs w"
  "collection_docs (setShapData d w) = collection_docs w"
  "collection_docs (setIsClearingHistory b w) = collection_docs w"
  "collection_docs (setClearHistoryMessage m w) = collection_docs w"
  by (simp_all add: setters)

lemma selectedDisease_setters [simp]:
  "selectedDisease (emit e w) = selectedDisease w"
  "selectedDisease (setIsLoading b w) = selectedDisease w"
  "selectedDisease (setPrediction d w) = selectedDisease w"
  "selectedDisease (setShapData d w) = selectedDisease w"
  by (simp_all add: setters)

lemma trace_setters [simp]:
  "trace (emit e w) = trace w @ [e]"
  "trace (setIsLoading b w) = trace w @ [SetIsLoading b]"
  "trace (setPrediction d w) = trace w @ [SetPrediction d]"
  "trace (setShapData d w) = trace w @ [SetShapData d]"
  "trace (setIsClearingHistory b w) = trace w @ [SetIsClearingHistory b]"
  "trace (setClearHistoryMessage m w) = trace w @ [SetClearHistoryMessage m]"
  by (simp_all add: setters)

lemma prediction_setters [simp]:
  "prediction (emit e w) = prediction w"
  "prediction (setIsLoading b w) = prediction w"
  "prediction (setPrediction d w) = d"
  "prediction (setShapData d w) = prediction w"
  by (simp_all add: setters)

lemma shapData_setters [simp]:
  "shapData (emit e w) = shapData w"
  "shapData (setIsLoading b w) = shapData w"
  "shapData (setPrediction d w) = shapData w"
  "shapData (setShapData d w) = d"
  by (simp_all add: setters)

lemma docs_on_shap_result [simp]: "collection_docs (on_shap_result r w) = collection_docs w"
  by (simp add: on_shap_result_def split: settled.splits)

lemma docs_catch_block [simp]: "collection_docs (catch_block e w) = collection_docs w"
  by (simp add: catch_block_def)

lemma issued_appends_append [simp]:
  "issued_appends (es @ es') = issued_appends es @ issued_appends es'"
  by (induction es rule: issued_appends.induct) simp_all

text \<open>The promise of the handler is always fulfilled: nothing it throws escapes.\<close>

lemma handlePrediction_fulfilled:
  "handlePrediction en fd w = Fulfilled (handlePrediction_state en fd w)"
  by (simp add: handlePrediction_def)

text \<open>
  When the classification call fails, its message is shown, and the explanation shown is
  the outcome of the explanation call itself.
\<close>

lemma classification_failure_display:
  assumes "predictionPromise en = Rejected reason"
  shows "prediction (handlePrediction_state en fd w) = ErrorObject (message reason)"
    and "shapData (handlePrediction_state en fd w) =
           (case shapPromise en of Fulfilled v \<Rightarrow> Shown v | Rejected r \<Rightarrow> ErrorObject (message r))"
  using assms
  by (simp_all add: handlePrediction_state_def try_block_def on_prediction_result_def
      on_shap_result_def Let_def split: settled.splits)

text \<open>What is shown for the classification does not depend on the explanation call.\<close>

lemma prediction_display_independent:
  "prediction (handlePrediction_state (en\<lparr>explain_response := r\<rparr>) fd w) =
   prediction (handlePrediction_state en fd w)"
  by (auto simp: handlePrediction_state_def try_block_def on_prediction_result_def addDoc_def
      on_shap_result_def catch_block_def predictionPromise_def Let_def
      split: settled.splits sum.splits add_outcome.splits prod.splits)

text \<open>
  When the classification succeeded and the store rejects the write, the handler shows
  the connection error for the classification and \<open>null\<close> for the explanation.
\<close>

lemma write_rejected_display:
  assumes "predictionPromise en = Fulfilled result" "store_ready w"
    "addDoc_outcome en = WriteRejected e"
  shows "prediction (handlePrediction_state en fd w) = ErrorObject (Text connect_failed)"
    and "shapData (handlePrediction_state en fd w) = Shown JNull"
  using assms
  by (simp_all add: handlePrediction_state_def try_block_def on_prediction_result_def addDoc_def
      catch_block_def Let_def split: sum.splits)

text \<open>
  C1 (as amended). A submission calls \<open>addDoc\<close> exactly when the classification call
  settles successfully with a body that is not \<open>null\<close> and the store handle and the user
  identity are both set; it then calls it once, with the selected disease, the
  \<open>prediction\<close> and \<open>probability_has_disease\<close> of the body and the submitted form data,
  and the collection grows by exactly that entry when the store accepts the write. In
  every other case, and so whenever the classification call fails, the collection is
  unchanged. None of this depends on the outcome of the explanation call.
\<close>

theorem handlePrediction_appends:
  "collection_docs (handlePrediction_state en fd w) =
     (case predictionPromise en of
        Rejected reason \<Rightarrow> collection_docs w
      | Fulfilled result \<Rightarrow>
          (if store_ready w then
             (case (member result ''prediction'', member result ''probability_has_disease'',
                    addDoc_outcome en) of
                (Inr p, Inr q, Written i t) \<Rightarrow>
                  collection_docs w @
                    [\<lparr>disease_name = selectedDisease w, prediction_result = p,
                      probability = q, formData = fd, doc_id = i, timestamp = t\<rparr>]
              | _ \<Rightarrow> collection_docs w)
           else collection_docs w))
   \<and> issued_appends (trace (handlePrediction_state en fd w)) =
       issued_appends (trace w) @
       (case predictionPromise en of
          Rejected reason \<Rightarrow> []
        | Fulfilled result \<Rightarrow>
            (if store_ready w then
               (case (member result ''prediction'', member result ''probability_has_disease'') of
                  (Inr p, Inr q) \<Rightarrow>
                    [\<lparr>disease_name = selectedDisease w, prediction_result = p,
                      probability = q, formData = fd\<rparr>]
                | _ \<Rightarrow> [])
             else []))
   \<and> (\<forall>r. collection_docs (handlePrediction_state (en\<lparr>explain_response := r\<rparr>) fd w) =
            collection_docs (handlePrediction_state en fd w))"
proof (intro conjI)
  show "collection_docs (handlePrediction_state en fd w) =
     (case predictionPromise en of
        Rejected reason \<Rightarrow> collection_docs w
      | Fulfilled result \<Rightarrow>
          (if store_ready w then
             (case (member result ''prediction'', member result ''probability_has_disease'',
                    addDoc_outcome en) of
                (Inr p, Inr q, Written i t) \<Rightarrow>
                  collection_docs w @
                    [\<lparr>disease_name = selectedDisease w, prediction_result = p,
                      probability = q, formData = fd, doc_id = i, timestamp = t\<rparr>]
              | _ \<Rightarrow> collection_docs w)
           else collection_docs w))"
    by (simp add: handlePrediction_state_def try_block_def on_prediction_result_def addDoc_def
        Let_def split: settled.splits sum.splits add_outcome.splits prod.splits)
  show "issued_appends (trace (handlePrediction_state en fd w)) =
       issued_appends (trace w) @
       (case predictionPromise en of
          Rejected reason \<Rightarrow> []
        | Fulfilled result \<Rightarrow>
            (if store_ready w then
               (case (member result ''prediction'', member result ''probability_has_disease'') of
                  (Inr p, Inr q) \<Rightarrow>
                    [\<lparr>disease_name = selectedDisease w, prediction_result = p,
                      probability = q, formData = fd\<rparr>]
                | _ \<Rightarrow> [])
             else []))"
    by (auto simp: handlePrediction_state_def try_block_def on_prediction_result_def addDoc_def
        on_shap_result_def catch_block_def Let_def
        split: settled.splits sum.splits add_outcome.splits prod.splits)
  show "\<forall>r. collection_docs (handlePrediction_state (en\<lparr>explain_response := r\<rparr>) fd w) =
            collection_docs (handlePrediction_state en fd w)"
    by (simp add: handlePrediction_state_def try_block_def on_prediction_result_def addDoc_def
        predictionPromise_def Let_def
        split: settled.splits sum.splits add_outcome.splits prod.splits)
qed

theorem handlePrediction_appends_witness:
  "collection_docs (handlePrediction_state
       (ok_env\<lparr>explain_response := NetworkFailure ''Failed to fetch''\<rparr>) example_form example_world) =
     [\<lparr>disease_name = ''diabetes'', prediction_result = Some (JNum (Fin 1)),
       probability = Some (JNum (Fin 0.82)), formData = example_form,
       doc_id = 7, timestamp = 100\<rparr>] \<and>
   issued_appends (trace (handlePrediction_state
       (ok_env\<lparr>explain_response := NetworkFailure ''Failed to fetch''\<rparr>) example_form example_world)) =
     [\<lparr>disease_name = ''diabetes'', prediction_result = Some (JNum (Fin 1)),
       probability = Some (JNum (Fin 0.82)), formData = example_form\<rparr>]"
  using handlePrediction_appends
    [of "ok_env\<lparr>explain_response := NetworkFailure ''Failed to fetch''\<rparr>" example_form example_world]
  by (simp add: predictionPromise_def settle_call_def ok_env_def example_world_def store_ready_def
      positive_body_def member_def get_prop_def)

text \<open>
  A classification call answered with status 400 and the body \<open>{detail: "missing field"}\<close>:
  the message is shown and nothing is appended.
\<close>

lemma classification_rejected_scenario:
  "prediction (handlePrediction_state
       (ok_env\<lparr>predict_response := Response False (Json (JObj [(''detail'', JStr ''missing field'')]))\<rparr>)
       example_form example_world) = ErrorObject (Text ''missing field'') \<and>
   collection_docs (handlePrediction_state
       (ok_env\<lparr>predict_response := Response False (Json (JObj [(''detail'', JStr ''missing field'')]))\<rparr>)
       example_form example_world) = []"
  by (simp add: handlePrediction_state_def try_block_def on_prediction_result_def
      on_shap_result_def predictionPromise_def shapPromise_def settle_call_def ok_env_def
      example_world_def member_def get_prop_def error_of_detail_def Let_def split: settled.splits)

text \<open>
  C1 as stated fails: without a store handle and a user identity, a submission whose
  classification call succeeds calls \<open>addDoc\<close> not at all and leaves the collection as
  it was.
\<close>

theorem handlePrediction_appends_counterexample:
  "predictionPromise ok_env = Fulfilled positive_body \<and>
   collection_docs (handlePrediction_state ok_env example_form offline_world) =
     collection_docs offline_world \<and>
   issued_appends (trace (handlePrediction_state ok_env example_form offline_world)) = []"
  by (simp add: handlePrediction_state_def try_block_def on_prediction_result_def
      on_shap_result_def predictionPromise_def shapPromise_def settle_call_def ok_env_def
      example_world_def offline_world_def store_ready_def setters Let_def)

text \<open>
  C2, at the failing input. Both calls succeed and the store rejects the write: the
  classification shown is the error \<open>Failed to connect to the backend server.\<close>, not
  the prediction that the backend returned, and the explanation shown is \<open>null\<close>, not
  the explanation that the backend returned.
\<close>

theorem write_rejection_replaces_result:
  "predictionPromise (ok_env\<lparr>addDoc_outcome := rejected_write\<rparr>) = Fulfilled positive_body \<and>
   shapPromise (ok_env\<lparr>addDoc_outcome := rejected_write\<rparr>) = Fulfilled shap_body \<and>
   prediction (handlePrediction_state (ok_env\<lparr>addDoc_outcome := rejected_write\<rparr>)
       example_form example_world) =
     ErrorObject (Text ''Failed to connect to the backend server.'') \<and>
   shapData (handlePrediction_state (ok_env\<lparr>addDoc_outcome := rejected_write\<rparr>)
       example_form example_world) = Shown JNull"
  by (simp add: handlePrediction_state_def try_block_def on_prediction_result_def addDoc_def
      on_shap_result_def predictionPromise_def shapPromise_def settle_call_def ok_env_def
      example_world_def store_ready_def setters Let_def catch_block_def rejected_write_def
      positive_body_def member_def get_prop_def connect_failed_def)

text \<open>
  C4, at the failing input. The classification call succeeds, the explanation call fails
  with the message \<open>Model not loaded\<close>, and the store rejects the write: the promise of
  the handler is fulfilled, but the explanation shown is \<open>null\<close>, the message of the
  explanation call appears neither in the state nor in the trace, and the classification
  shown is a connection error.
\<close>

theorem write_rejection_loses_explanation_error:
  "shapPromise (ok_env\<lparr>explain_response := explain_failure, addDoc_outcome := rejected_write\<rparr>) =
     Rejected (JsError Error (Text ''Model not loaded'')) \<and>
   predictionPromise (ok_env\<lparr>explain_response := explain_failure, addDoc_outcome := rejected_write\<rparr>) =
     Fulfilled positive_body \<and>
   shapData (handlePrediction_state
      (ok_env\<lparr>explain_response := explain_failure, addDoc_outcome := rejected_write\<rparr>)
      example_form example_world) = Shown JNull \<and>
   prediction (handlePrediction_state
      (ok_env\<lparr>explain_response := explain_failure, addDoc_outcome := rejected_write\<rparr>)
      example_form example_world) = ErrorObject (Text ''Failed to connect to the backend server.'') \<and>
   ConsoleError ''SHAP Explanation Error:'' (JsError Error (Text ''Model not loaded'')) \<notin>
     set (trace (handlePrediction_state
      (ok_env\<lparr>explain_response := explain_failure, addDoc_outcome := rejected_write\<rparr>)
      example_form example_world))"
  by (simp add: handlePrediction_state_def try_block_def on_prediction_result_def addDoc_def
      on_shap_result_def predictionPromise_def shapPromise_def settle_call_def ok_env_def
      example_world_def store_ready_def Let_def catch_block_def rejected_write_def
      positive_body_def member_def get_prop_def connect_failed_def explain_failure_def
      error_of_detail_def setters)

section \<open>Properties of handleClearHistory\<close>

lemma filter_own_ids: "filter (\<lambda>d. doc_id d \<notin> set (map doc_id ds)) ds = []"
  by (induction ds) auto

text \<open>
  A document that another writer appends between the read and the commit is not in the
  batch and survives the clearing.
\<close>

lemma clear_race_survivor:
  assumes "store_ready w" "getDocs_rejection en = None" "commit_rejection en = None"
    "concurrent_appends en = [d]" "doc_id d \<notin> set (map doc_id (collection_docs w))"
  shows "collection_docs (handleClearHistory_state en w) = [d]"
  using assms
  by (simp add: handleClearHistory_state_def clear_try_def Let_def filter_own_ids)

text \<open>
  C10. When the store handle or the user identity is unset, the handler returns at once:
  the promise is fulfilled with the state it was called in, trace included, so there is
  no read, no delete, no notification, no change of the clearing flag and no change of
  the collection.
\<close>

theorem handleClearHistory_unset:
  assumes "db w = None \<or> userId w = None"
  shows "handleClearHistory en w = Fulfilled w
    \<and> trace (handleClearHistory_state en w) = trace w
    \<and> collection_docs (handleClearHistory_state en w) = collection_docs w
    \<and> isClearingHistory (handleClearHistory_state en w) = isClearingHistory w
    \<and> clearHistoryMessage (handleClearHistory_state en w) = clearHistoryMessage w"
  using assms by (auto simp: handleClearHistory_def handleClearHistory_state_def store_ready_def)

theorem handleClearHistory_unset_witness:
  "(db (example_world\<lparr>db := None, collection_docs := [example_doc 1 ''heart'' 1]\<rparr>) = None \<or>
    userId (example_world\<lparr>db := None, collection_docs := [example_doc 1 ''heart'' 1]\<rparr>) = None) \<and>
   handleClearHistory clear_ok (example_world\<lparr>db := None, collection_docs := [example_doc 1 ''heart'' 1]\<rparr>) =
     Fulfilled (example_world\<lparr>db := None, collection_docs := [example_doc 1 ''heart'' 1]\<rparr>) \<and>
   trace (handleClearHistory_state clear_ok
       (example_world\<lparr>db := None, collection_docs := [example_doc 1 ''heart'' 1]\<rparr>)) = [] \<and>
   collection_docs (handleClearHistory_state clear_ok
       (example_world\<lparr>db := None, collection_docs := [example_doc 1 ''heart'' 1]\<rparr>)) =
     [example_doc 1 ''heart'' 1]"
  using handleClearHistory_unset
    [of "example_world\<lparr>db := None, collection_docs := [example_doc 1 ''heart'' 1]\<rparr>" clear_ok]
  by (simp add: example_world_def)

text \<open>
  C5. When the store handle and the user identity are set, the read and the commit
  succeed and nobody appends in between, the collection is empty after the clearing: the
  snapshot delivered next has no entries, its history is empty and its aggregate is the
  empty object.
\<close>

theorem handleClearHistory_empties:
  assumes "store_ready w" "getDocs_rejection en = None" "commit_rejection en = None"
    "concurrent_appends en = []"
  shows "collection_docs (handleClearHistory_state en w) = []
    \<and> predictionHistory (deliver_snapshot (handleClearHistory_state en w)) = []
    \<and> aggregate (collection_docs (handleClearHistory_state en w)) = []
    \<and> clearHistoryMessage (handleClearHistory_state en w) = cleared_message"
proof -
  have docs: "collection_docs (handleClearHistory_state en w) = []"
    using assms
    by (simp add: handleClearHistory_state_def clear_try_def Let_def filter_own_ids)
  have msg: "clearHistoryMessage (handleClearHistory_state en w) = cleared_message"
    using assms
    by (simp add: handleClearHistory_state_def clear_try_def Let_def setters)
  show ?thesis
    by (simp add: docs msg deliver_snapshot_def aggregate_def snapshot_history_def
        diseaseCounts_def)
qed

theorem handleClearHistory_empties_witness:
  "store_ready (example_world\<lparr>collection_docs :=
       [example_doc 1 ''heart'' 1, example_doc 2 ''diabetes'' 0, example_doc 3 ''heart'' 1]\<rparr>) \<and>
   getDocs_rejection clear_ok = None \<and> commit_rejection clear_ok = None \<and>
   concurrent_appends clear_ok = [] \<and>
   collection_docs (handleClearHistory_state clear_ok (example_world\<lparr>collection_docs :=
       [example_doc 1 ''heart'' 1, example_doc 2 ''diabetes'' 0, example_doc 3 ''heart'' 1]\<rparr>)) = [] \<and>
   aggregate (collection_docs (handleClearHistory_state clear_ok (example_world\<lparr>collection_docs :=
       [example_doc 1 ''heart'' 1, example_doc 2 ''diabetes'' 0, example_doc 3 ''heart'' 1]\<rparr>))) = []"
  using handleClearHistory_empties [of "example_world\<lparr>collection_docs :=
       [example_doc 1 ''heart'' 1, example_doc 2 ''diabetes'' 0, example_doc 3 ''heart'' 1]\<rparr>" clear_ok]
  by (simp add: store_ready_def example_world_def clear_ok_def aggregate_def
      snapshot_history_def diseaseCounts_def)

end
